theory Spec2Isabelle
  imports Main
begin

section \<open>The settings page of bilibili_spider (pages/settings_page.py)\<close>

text \<open>
  \<^verbatim>\<open>SettingsPage\<close> is an event-driven front end over two collaborators that it receives in
  its constructor: \<^verbatim>\<open>config\<close> (class Config) and \<^verbatim>\<open>db_handler\<close> (class DatabaseHandler).
  Every handler of the page is embedded as a function from the page's state to the page's
  new state. The state holds the two collaborator objects, the contents of the widgets the
  handlers read or write, and a log of every effect a handler performs (each collaborator
  call, each widget write, each dialog), in program order.

  The classes Config and DatabaseHandler are not part of this file. A handler is therefore
  parametrised by a record of their methods. A method takes the object's state and returns
  the outcome of the call (an exception, or the returned value) together with the object's
  state after the call, so that a method may both mutate the object and raise.
\<close>

subsection \<open>Text\<close>

text \<open>
  Python's \<^verbatim>\<open>str.strip()\<close> removes leading and trailing white space. A \<^typ>\<open>char\<close> is read
  as a code point below 256; the white space among those is 9..13, 28..32, 133 and 160.
\<close>

definition isspace :: "char \<Rightarrow> bool" where
  "isspace c =
     (let n = (of_char c :: nat)
      in (9 \<le> n \<and> n \<le> 13) \<or> (28 \<le> n \<and> n \<le> 32) \<or> n = 133 \<or> n = 160)"

definition strip :: "string \<Rightarrow> string" where
  "strip s = rev (dropWhile isspace (rev (dropWhile isspace s)))"

subsection \<open>Exceptions, dialogs and the effect log\<close>

text \<open>An exception is identified with its message, the \<^verbatim>\<open>str(e)\<close> that the handlers display.\<close>

type_synonym exn = string

text \<open>
  The three \<^verbatim>\<open>QMessageBox\<close> levels the page uses, the four dialog titles
  (\<open>TitleHint\<close> "ti shi", \<open>TitleSuccess\<close> "cheng gong", \<open>TitleError\<close> "cuo wu",
  \<open>TitleConfirm\<close> "que ren"), and the message texts, one constructor per literal of the
  source; a text built with an f-string carries the exception's message.
\<close>

datatype level = Information | Warning | Critical

datatype title = TitleHint | TitleSuccess | TitleError | TitleConfirm

datatype msg =
    PleaseEnterCookie
  | CookieObtainedAndSaved
  | CookieFormatOk
  | CookieFormatInvalid
  | CookieSaved
  | CookieCleared
  | DatabaseCleared
  | BackupInDevelopment
  | StartHelperFailed exn
  | HandleCookieFailed exn
  | LoadSettingsFailed exn
  | ValidateCookieFailed exn
  | SaveCookieFailed exn
  | ClearCookieFailed exn
  | ClearDatabaseFailed exn

datatype question = ConfirmClearCookie | ConfirmClearDatabase

datatype standard_button = Yes | No

text \<open>
  The text of \<^verbatim>\<open>cookie_status_label\<close>: the initial text set in \<^verbatim>\<open>init_ui\<close>, and the three
  texts \<^verbatim>\<open>load_settings\<close> chooses from (cookie about to expire, cookie valid, no cookie set).
  The label's state is the text with the colour of its style sheet.
\<close>

datatype status = StatusInitial | StatusExpiring | StatusValid | StatusUnset

type_synonym label = "status \<times> string"

datatype attr = DELAY_MIN_attr | DELAY_MAX_attr | MAX_RETRIES_attr

datatype event =
    ConfigSetCookie string
  | ConfigClearCookie
  | ConfigValidateCookie string
  | ConfigSetAttr attr int
  | DbSaveCookie string
  | DbClearCookies
  | DbClearDatabase
  | DbGetValidCookie
  | CookieHelperNew
  | InputSetText string
  | InputClear
  | StatusSet label
  | MessageBox level title msg
  | QuestionBox question standard_button

subsection \<open>The collaborators and the page\<close>

text \<open>
  The Config object: the three integer attributes the page reads and assigns, and whatever
  else the class keeps (\<open>'c\<close>, which holds the active cookie).
\<close>

record 'c Config =
  DELAY_MIN :: int
  DELAY_MAX :: int
  MAX_RETRIES :: int
  internals :: 'c

text \<open>
  The methods of Config and of DatabaseHandler that the page calls (\<open>'d\<close> is the state of
  the database handler), and the constructor of the cookie helper. \<^verbatim>\<open>set_cookie\<close> and
  \<^verbatim>\<open>validate_cookie\<close> return a truth value; \<^verbatim>\<open>get_valid_cookie\<close> returns the pair
  \<^verbatim>\<open>(cookie, need_update)\<close>, whose first component is \<^verbatim>\<open>None\<close> or a string.

  The toolkit is a collaborator too. The cookie box is a \<^verbatim>\<open>QTextEdit\<close>: the handlers write
  it with \<^verbatim>\<open>setText\<close> and read it with \<^verbatim>\<open>toPlainText()\<close>, and the toolkit decides what the
  box reports after a write (it renders a text that looks like markup, and it normalises line
  ends and no-break spaces). \<open>plain_after_setText t\<close> is the text that \<^verbatim>\<open>toPlainText()\<close>
  reports once \<^verbatim>\<open>setText(t)\<close> has run.
\<close>

record ('c, 'd) collab =
  config_set_cookie :: "string \<Rightarrow> 'c Config \<Rightarrow> (exn + bool) \<times> 'c Config"
  config_clear_cookie :: "'c Config \<Rightarrow> (exn + unit) \<times> 'c Config"
  config_validate_cookie :: "string \<Rightarrow> 'c Config \<Rightarrow> (exn + bool) \<times> 'c Config"
  db_save_cookie :: "string \<Rightarrow> 'd \<Rightarrow> (exn + unit) \<times> 'd"
  db_clear_cookies :: "'d \<Rightarrow> (exn + unit) \<times> 'd"
  db_clear_database :: "'d \<Rightarrow> (exn + unit) \<times> 'd"
  db_get_valid_cookie :: "'d \<Rightarrow> (exn + (string option \<times> bool)) \<times> 'd"
  cookie_helper_new :: "'c Config \<Rightarrow> 'd \<Rightarrow> exn option"
  plain_after_setText :: "string \<Rightarrow> string"

text \<open>
  The page. \<open>cookie_input\<close> is the plain text the cookie box reports, that is, what
  \<^verbatim>\<open>cookie_input.toPlainText()\<close> returns.
\<close>

record ('c, 'd) page =
  config :: "'c Config"
  db_handler :: 'd
  cookie_helper :: bool
  cookie_input :: string
  cookie_status_label :: label
  min_delay :: int
  max_delay :: int
  max_retries :: int
  log :: "event list"

definition emit :: "event \<Rightarrow> ('c, 'd) page \<Rightarrow> ('c, 'd) page" where
  "emit e s = s\<lparr>log := log s @ [e]\<rparr>"

text \<open>The effects a handler has added to the log between two states.\<close>

definition events_since :: "('c, 'd) page \<Rightarrow> ('c, 'd) page \<Rightarrow> event list" where
  "events_since s s' = drop (length (log s)) (log s')"

text \<open>Calling a collaborator: the call is logged and the object's new state is kept.\<close>

definition call_set_cookie ::
  "('c, 'd) collab \<Rightarrow> string \<Rightarrow> ('c, 'd) page \<Rightarrow> (exn + bool) \<times> ('c, 'd) page" where
  "call_set_cookie C cookie s =
     (case config_set_cookie C cookie (config s) of
        (r, c') \<Rightarrow> (r, emit (ConfigSetCookie cookie) (s\<lparr>config := c'\<rparr>)))"

definition call_clear_cookie ::
  "('c, 'd) collab \<Rightarrow> ('c, 'd) page \<Rightarrow> (exn + unit) \<times> ('c, 'd) page" where
  "call_clear_cookie C s =
     (case config_clear_cookie C (config s) of
        (r, c') \<Rightarrow> (r, emit ConfigClearCookie (s\<lparr>config := c'\<rparr>)))"

definition call_validate_cookie ::
  "('c, 'd) collab \<Rightarrow> string \<Rightarrow> ('c, 'd) page \<Rightarrow> (exn + bool) \<times> ('c, 'd) page" where
  "call_validate_cookie C cookie s =
     (case config_validate_cookie C cookie (config s) of
        (r, c') \<Rightarrow> (r, emit (ConfigValidateCookie cookie) (s\<lparr>config := c'\<rparr>)))"

definition call_db_save_cookie ::
  "('c, 'd) collab \<Rightarrow> string \<Rightarrow> ('c, 'd) page \<Rightarrow> (exn + unit) \<times> ('c, 'd) page" where
  "call_db_save_cookie C cookie s =
     (case db_save_cookie C cookie (db_handler s) of
        (r, d') \<Rightarrow> (r, emit (DbSaveCookie cookie) (s\<lparr>db_handler := d'\<rparr>)))"

definition call_db_clear_cookies ::
  "('c, 'd) collab \<Rightarrow> ('c, 'd) page \<Rightarrow> (exn + unit) \<times> ('c, 'd) page" where
  "call_db_clear_cookies C s =
     (case db_clear_cookies C (db_handler s) of
        (r, d') \<Rightarrow> (r, emit DbClearCookies (s\<lparr>db_handler := d'\<rparr>)))"

definition call_db_clear_database ::
  "('c, 'd) collab \<Rightarrow> ('c, 'd) page \<Rightarrow> (exn + unit) \<times> ('c, 'd) page" where
  "call_db_clear_database C s =
     (case db_clear_database C (db_handler s) of
        (r, d') \<Rightarrow> (r, emit DbClearDatabase (s\<lparr>db_handler := d'\<rparr>)))"

definition call_db_get_valid_cookie ::
  "('c, 'd) collab \<Rightarrow> ('c, 'd) page \<Rightarrow> (exn + (string option \<times> bool)) \<times> ('c, 'd) page" where
  "call_db_get_valid_cookie C s =
     (case db_get_valid_cookie C (db_handler s) of
        (r, d') \<Rightarrow> (r, emit DbGetValidCookie (s\<lparr>db_handler := d'\<rparr>)))"

text \<open>Widget writes and dialogs.\<close>

definition input_setText ::
  "('c, 'd) collab \<Rightarrow> string \<Rightarrow> ('c, 'd) page \<Rightarrow> ('c, 'd) page" where
  "input_setText C t s = emit (InputSetText t) (s\<lparr>cookie_input := plain_after_setText C t\<rparr>)"

definition input_clear :: "('c, 'd) page \<Rightarrow> ('c, 'd) page" where
  "input_clear s = emit InputClear (s\<lparr>cookie_input := []\<rparr>)"

definition status_set :: "status \<Rightarrow> string \<Rightarrow> ('c, 'd) page \<Rightarrow> ('c, 'd) page" where
  "status_set st colour s = emit (StatusSet (st, colour)) (s\<lparr>cookie_status_label := (st, colour)\<rparr>)"

definition message_box :: "level \<Rightarrow> title \<Rightarrow> msg \<Rightarrow> ('c, 'd) page \<Rightarrow> ('c, 'd) page" where
  "message_box lv ti m s = emit (MessageBox lv ti m) s"

subsection \<open>The handlers\<close>

text \<open>
  \<^verbatim>\<open>load_settings\<close>: \<^verbatim>\<open>if cookie:\<close> is Python truth, so \<^verbatim>\<open>None\<close> and the empty string
  both take the else branch.
\<close>

definition load_settings :: "('c, 'd) collab \<Rightarrow> ('c, 'd) page \<Rightarrow> ('c, 'd) page" where
  "load_settings C s =
     (case call_db_get_valid_cookie C s of
        (Inl e, s1) \<Rightarrow> message_box Critical TitleError (LoadSettingsFailed e) s1
      | (Inr (cookie, need_update), s1) \<Rightarrow>
          (case cookie of
             None \<Rightarrow> status_set StatusUnset ''#ff0000'' s1
           | Some text \<Rightarrow>
               if text \<noteq> [] then
                 (let s2 = input_setText C text s1
                  in if need_update then status_set StatusExpiring ''#ff9900'' s2
                     else status_set StatusValid ''#00cc00'' s2)
               else status_set StatusUnset ''#ff0000'' s1))"

text \<open>
  \<^verbatim>\<open>show_cookie_helper\<close>: constructs the helper and connects its \<^verbatim>\<open>cookie_ready\<close> signal to
  \<^verbatim>\<open>on_cookie_received\<close>; when the constructor raises, the attribute is not assigned.
\<close>

definition show_cookie_helper :: "('c, 'd) collab \<Rightarrow> ('c, 'd) page \<Rightarrow> ('c, 'd) page" where
  "show_cookie_helper C s =
     (case cookie_helper_new C (config s) (db_handler s) of
        Some e \<Rightarrow> message_box Critical TitleError (StartHelperFailed e) (emit CookieHelperNew s)
      | None \<Rightarrow> (emit CookieHelperNew s)\<lparr>cookie_helper := True\<rparr>)"

definition on_cookie_received ::
  "('c, 'd) collab \<Rightarrow> string \<Rightarrow> ('c, 'd) page \<Rightarrow> ('c, 'd) page" where
  "on_cookie_received C cookie s =
     (let s0 = input_setText C cookie s
      in case call_set_cookie C cookie s0 of
           (Inl e, s1) \<Rightarrow> message_box Critical TitleError (HandleCookieFailed e) s1
         | (Inr ok, s1) \<Rightarrow>
             if ok then
               (case call_db_save_cookie C cookie s1 of
                  (Inl e, s2) \<Rightarrow> message_box Critical TitleError (HandleCookieFailed e) s2
                | (Inr u, s2) \<Rightarrow>
                    message_box Information TitleSuccess CookieObtainedAndSaved
                      (load_settings C s2))
             else s1)"

definition validate_cookie :: "('c, 'd) collab \<Rightarrow> ('c, 'd) page \<Rightarrow> ('c, 'd) page" where
  "validate_cookie C s =
     (let cookie = strip (cookie_input s)
      in if cookie = [] then message_box Warning TitleHint PleaseEnterCookie s
         else
           (case call_validate_cookie C cookie s of
              (Inl e, s1) \<Rightarrow> message_box Critical TitleError (ValidateCookieFailed e) s1
            | (Inr ok, s1) \<Rightarrow>
                if ok then message_box Information TitleSuccess CookieFormatOk s1
                else message_box Warning TitleError CookieFormatInvalid s1))"

definition save_cookie :: "('c, 'd) collab \<Rightarrow> ('c, 'd) page \<Rightarrow> ('c, 'd) page" where
  "save_cookie C s =
     (let cookie = strip (cookie_input s)
      in if cookie = [] then message_box Warning TitleHint PleaseEnterCookie s
         else
           (case call_clear_cookie C s of
              (Inl e, s1) \<Rightarrow> message_box Critical TitleError (SaveCookieFailed e) s1
            | (Inr u, s1) \<Rightarrow>
                (case call_set_cookie C cookie s1 of
                   (Inl e, s2) \<Rightarrow> message_box Critical TitleError (SaveCookieFailed e) s2
                 | (Inr ok, s2) \<Rightarrow>
                     if ok then
                       (case call_db_save_cookie C cookie s2 of
                          (Inl e, s3) \<Rightarrow>
                            message_box Critical TitleError (SaveCookieFailed e) s3
                        | (Inr u', s3) \<Rightarrow>
                            message_box Information TitleSuccess CookieSaved
                              (load_settings C s3))
                     else message_box Warning TitleError CookieFormatInvalid s2)))"


definition clear_database ::
  "('c, 'd) collab \<Rightarrow> standard_button \<Rightarrow> ('c, 'd) page \<Rightarrow> ('c, 'd) page" where
  "clear_database C reply s =
     (let s0 = emit (QuestionBox ConfirmClearDatabase reply) s
      in if reply = Yes then
           (case call_db_clear_database C s0 of
              (Inl e, s1) \<Rightarrow> message_box Critical TitleError (ClearDatabaseFailed e) s1
            | (Inr u, s1) \<Rightarrow> message_box Information TitleSuccess DatabaseCleared s1)
         else s0)"

definition backup_database :: "('c, 'd) page \<Rightarrow> ('c, 'd) page" where
  "backup_database s = message_box Information TitleHint BackupInDevelopment s"

text \<open>
  \<^verbatim>\<open>save_settings\<close> assigns the three attributes of \<^verbatim>\<open>config\<close> from the three spin boxes.
  The attributes are plain integer fields, so no assignment raises and the handler's
  \<^verbatim>\<open>except\<close> branch has no case here.
\<close>

definition config_setattr :: "attr \<Rightarrow> int \<Rightarrow> ('c, 'd) page \<Rightarrow> ('c, 'd) page" where
  "config_setattr a v s =
     emit (ConfigSetAttr a v)
       (s\<lparr>config :=
            (case a of
               DELAY_MIN_attr \<Rightarrow> (config s)\<lparr>DELAY_MIN := v\<rparr>
             | DELAY_MAX_attr \<Rightarrow> (config s)\<lparr>DELAY_MAX := v\<rparr>
             | MAX_RETRIES_attr \<Rightarrow> (config s)\<lparr>MAX_RETRIES := v\<rparr>)\<rparr>)"

definition save_settings :: "('c, 'd) page \<Rightarrow> ('c, 'd) page" where
  "save_settings s =
     (let s1 = config_setattr DELAY_MIN_attr (min_delay s) s;
          s2 = config_setattr DELAY_MAX_attr (max_delay s1) s1
      in config_setattr MAX_RETRIES_attr (max_retries s2) s2)"

text \<open>
  The three spin boxes. \<^verbatim>\<open>init_ui\<close> gives each its range and connects the
  \<^verbatim>\<open>valueChanged\<close> signal of each to \<^verbatim>\<open>save_settings\<close>. A spin box keeps its value inside
  its range and emits \<^verbatim>\<open>valueChanged\<close> when the value it holds changes.
\<close>

datatype spin = MinDelaySpin | MaxDelaySpin | MaxRetriesSpin

fun spin_range :: "spin \<Rightarrow> int \<times> int" where
  "spin_range MinDelaySpin = (0, 100)"
| "spin_range MaxDelaySpin = (0, 100)"
| "spin_range MaxRetriesSpin = (0, 10)"

definition bound :: "spin \<Rightarrow> int \<Rightarrow> int" where
  "bound sp v = (case spin_range sp of (lo, hi) \<Rightarrow> max lo (min hi v))"

fun spin_value :: "spin \<Rightarrow> ('c, 'd) page \<Rightarrow> int" where
  "spin_value MinDelaySpin s = min_delay s"
| "spin_value MaxDelaySpin s = max_delay s"
| "spin_value MaxRetriesSpin s = max_retries s"

fun spin_store :: "spin \<Rightarrow> int \<Rightarrow> ('c, 'd) page \<Rightarrow> ('c, 'd) page" where
  "spin_store MinDelaySpin v s = s\<lparr>min_delay := v\<rparr>"
| "spin_store MaxDelaySpin v s = s\<lparr>max_delay := v\<rparr>"
| "spin_store MaxRetriesSpin v s = s\<lparr>max_retries := v\<rparr>"

text \<open>The user sets a spin box to \<open>v\<close>: when its value changes, the connected slot runs.\<close>

definition spin_edit :: "spin \<Rightarrow> int \<Rightarrow> ('c, 'd) page \<Rightarrow> ('c, 'd) page" where
  "spin_edit sp v s =
     (let v' = bound sp v
      in if v' = spin_value sp s then s else save_settings (spin_store sp v' s))"

text \<open>
  The constructor: \<^verbatim>\<open>init_ui\<close> builds the widgets (the spin boxes take the values of
  \<^verbatim>\<open>config\<close> before their signals are connected), then \<^verbatim>\<open>load_settings\<close> runs.
\<close>

definition init_ui :: "'c Config \<Rightarrow> 'd \<Rightarrow> ('c, 'd) page" where
  "init_ui cfg db =
     \<lparr>config = cfg, db_handler = db, cookie_helper = False, cookie_input = [],
      cookie_status_label = (StatusInitial, ''#ff9900''),
      min_delay = bound MinDelaySpin (DELAY_MIN cfg),
      max_delay = bound MaxDelaySpin (DELAY_MAX cfg),
      max_retries = bound MaxRetriesSpin (MAX_RETRIES cfg),
      log = []\<rparr>"

definition SettingsPage :: "('c, 'd) collab \<Rightarrow> 'c Config \<Rightarrow> 'd \<Rightarrow> ('c, 'd) page" where
  "SettingsPage C cfg db = load_settings C (init_ui cfg db)"

text \<open>
  The user edits the cookie box, which then reports \<open>text\<close> (no handler is connected to
  the box).
\<close>

definition user_types :: "string \<Rightarrow> ('c, 'd) page \<Rightarrow> ('c, 'd) page" where
  "user_types text s = s\<lparr>cookie_input := text\<rparr>"

text \<open>The effects one run of \<^verbatim>\<open>load_settings\<close> adds to the log.\<close>

definition load_effects :: "('c, 'd) collab \<Rightarrow> ('c, 'd) page \<Rightarrow> event list" where
  "load_effects C s = events_since s (load_settings C s)"

subsection \<open>Classifying logged effects\<close>

fun is_set_cookie :: "event \<Rightarrow> bool" where
  "is_set_cookie (ConfigSetCookie t) = True"
| "is_set_cookie e = False"

fun is_db_save_cookie :: "event \<Rightarrow> bool" where
  "is_db_save_cookie (DbSaveCookie t) = True"
| "is_db_save_cookie e = False"

fun is_validate_call :: "event \<Rightarrow> bool" where
  "is_validate_call (ConfigValidateCookie t) = True"
| "is_validate_call e = False"

fun is_config_call :: "event \<Rightarrow> bool" where
  "is_config_call (ConfigSetCookie t) = True"
| "is_config_call ConfigClearCookie = True"
| "is_config_call (ConfigValidateCookie t) = True"
| "is_config_call (ConfigSetAttr a v) = True"
| "is_config_call e = False"

fun is_db_call :: "event \<Rightarrow> bool" where
  "is_db_call (DbSaveCookie t) = True"
| "is_db_call DbClearCookies = True"
| "is_db_call DbClearDatabase = True"
| "is_db_call DbGetValidCookie = True"
| "is_db_call e = False"

fun is_status_set :: "event \<Rightarrow> bool" where
  "is_status_set (StatusSet l) = True"
| "is_status_set e = False"

fun is_message :: "event \<Rightarrow> bool" where
  "is_message (MessageBox lv ti m) = True"
| "is_message e = False"

subsection \<open>Reference collaborators\<close>

text \<open>
  Modelled from the spec: the classes Config and DatabaseHandler are not in
  pages/settings_page.py. The reference Config holds the active credential; a credential is
  structurally valid when it contains the three sub-fields that the placeholder text of the
  cookie box names (SESSDATA, bili_jct, DedeUserID); \<^verbatim>\<open>set_cookie\<close> stores a valid credential
  and returns true, and returns false on an invalid one; \<^verbatim>\<open>clear_cookie\<close> forgets the active
  credential. The reference DatabaseHandler holds at most one stored credential with its
  near-expiry flag, and the crawled comments; \<^verbatim>\<open>get_valid_cookie\<close> returns the stored
  credential and the flag. The reference cookie box reports a text as it was set, which is
  what a \<^verbatim>\<open>QTextEdit\<close> does with a text free of markup, carriage returns and no-break spaces;
  every concrete text below is such a text. They serve as concrete inputs; the theorems on
  the handlers hold for every collaborator.
\<close>

fun starts_with :: "string \<Rightarrow> string \<Rightarrow> bool" where
  "starts_with [] s = True"
| "starts_with (p # ps) [] = False"
| "starts_with (p # ps) (c # cs) = (p = c \<and> starts_with ps cs)"

fun contains :: "string \<Rightarrow> string \<Rightarrow> bool" where
  "contains p [] = (p = [])"
| "contains p (c # cs) = (starts_with p (c # cs) \<or> contains p cs)"

definition ref_valid :: "string \<Rightarrow> bool" where
  "ref_valid t = (contains ''SESSDATA'' t \<and> contains ''bili_jct'' t \<and> contains ''DedeUserID'' t)"

record ref_db =
  stored_cookie :: "string option"
  near_expiry :: bool
  comments :: "string list"

definition ref_collab :: "(string option, ref_db) collab" where
  "ref_collab =
     \<lparr>config_set_cookie =
        (\<lambda>t c. if ref_valid t then (Inr True, c\<lparr>internals := Some t\<rparr>) else (Inr False, c)),
      config_clear_cookie = (\<lambda>c. (Inr (), c\<lparr>internals := None\<rparr>)),
      config_validate_cookie = (\<lambda>t c. (Inr (ref_valid t), c)),
      db_save_cookie = (\<lambda>t d. (Inr (), d\<lparr>stored_cookie := Some t, near_expiry := False\<rparr>)),
      db_clear_cookies = (\<lambda>d. (Inr (), d\<lparr>stored_cookie := None\<rparr>)),
      db_clear_database = (\<lambda>d. (Inr (), d\<lparr>comments := []\<rparr>)),
      db_get_valid_cookie = (\<lambda>d. (Inr (stored_cookie d, near_expiry d), d)),
      cookie_helper_new = (\<lambda>c d. None),
      plain_after_setText = (\<lambda>t. t)\<rparr>"




text \<open>Concrete inputs: two credentials, a Config, a database and the page built on them.\<close>

definition old_cookie :: string where
  "old_cookie = ''SESSDATA=aa; bili_jct=bb; DedeUserID=1''"

definition new_cookie :: string where
  "new_cookie = ''SESSDATA=cc; bili_jct=dd; DedeUserID=2''"

definition bad_cookie :: string where
  "bad_cookie = ''SESSDATA=cc; DedeUserID=2''"

definition config0 :: "string option Config" where
  "config0 = \<lparr>DELAY_MIN = 1, DELAY_MAX = 3, MAX_RETRIES = 5, internals = Some old_cookie\<rparr>"

definition db0 :: ref_db where
  "db0 = \<lparr>stored_cookie = Some old_cookie, near_expiry = False, comments = [''a comment'']\<rparr>"

definition page0 :: "(string option, ref_db) page" where
  "page0 = SettingsPage ref_collab config0 db0"

subsection \<open>Properties\<close>

lemmas call_defs =
  call_set_cookie_def call_clear_cookie_def call_validate_cookie_def call_db_save_cookie_def
  call_db_clear_cookies_def call_db_clear_database_def call_db_get_valid_cookie_def

lemmas ui_defs = emit_def input_setText_def input_clear_def status_set_def message_box_def

text \<open>The concrete inputs, evaluated once.\<close>

lemma ref_valid_cookies:
  "ref_valid old_cookie" "ref_valid new_cookie" "\<not> ref_valid bad_cookie"
  by (simp_all add: ref_valid_def old_cookie_def new_cookie_def bad_cookie_def)

lemma strip_cookies:
  "strip new_cookie = new_cookie" "strip bad_cookie = bad_cookie" "strip ''  '' = []"
  by (simp_all add: strip_def isspace_def new_cookie_def bad_cookie_def)

lemma nonempty_cookies:
  "old_cookie \<noteq> []" "new_cookie \<noteq> []" "bad_cookie \<noteq> []"
  by (simp_all add: old_cookie_def new_cookie_def bad_cookie_def)

lemma page0_eq:
  "page0 =
     \<lparr>config = config0, db_handler = db0, cookie_helper = False, cookie_input = old_cookie,
      cookie_status_label = (StatusValid, ''#00cc00''),
      min_delay = 1, max_delay = 3, max_retries = 5,
      log = [DbGetValidCookie, InputSetText old_cookie, StatusSet (StatusValid, ''#00cc00'')]\<rparr>"
  by (simp add: page0_def SettingsPage_def init_ui_def load_settings_def call_defs ui_defs
      ref_collab_def db0_def config0_def bound_def nonempty_cookies)

lemmas ref_simps =
  page0_eq ref_collab_def config0_def db0_def user_types_def ref_valid_cookies strip_cookies
  nonempty_cookies


text \<open>What \<^verbatim>\<open>load_settings\<close> changes and what it adds to the log.\<close>

lemma load_settings_log: "log (load_settings C s) = log s @ load_effects C s"
  by (simp add: load_effects_def events_since_def load_settings_def call_defs ui_defs
      case_prod_beta Let_def split: sum.splits option.splits)

lemma load_settings_config: "config (load_settings C s) = config s"
  by (simp add: load_settings_def call_defs ui_defs case_prod_beta Let_def
      split: sum.splits option.splits)

lemma load_settings_db:
  "db_handler (load_settings C s) = snd (db_get_valid_cookie C (db_handler s))"
  by (simp add: load_settings_def call_defs ui_defs case_prod_beta Let_def
      split: sum.splits option.splits)


lemma load_effects_calls:
  "filter is_config_call (load_effects C s) = []"
  "filter is_db_call (load_effects C s) = [DbGetValidCookie]"
  "filter (\<lambda>e. is_set_cookie e \<or> is_db_save_cookie e) (load_effects C s) = []"
  "filter is_set_cookie (load_effects C s) = []"
  "filter is_db_save_cookie (load_effects C s) = []"
  "filter is_validate_call (load_effects C s) = []"
  "count_list (load_effects C s) DbClearCookies = 0"
  "count_list (load_effects C s) DbGetValidCookie = 1"
  "DbSaveCookie t \<notin> set (load_effects C s)"
  "DbGetValidCookie \<in> set (load_effects C s)"
  by (simp_all add: load_effects_def events_since_def load_settings_def call_defs ui_defs
      case_prod_beta Let_def split: sum.splits option.splits)


lemmas load_simps = load_settings_log load_settings_config load_settings_db load_effects_calls

lemmas handler_simps = call_defs ui_defs events_since_def case_prod_beta Let_def load_simps

subsection \<open>Loading the status\<close>

text \<open>
  C5. When \<^verbatim>\<open>get_valid_cookie\<close> returns \<^verbatim>\<open>(cookie, need_update)\<close>, \<^verbatim>\<open>load_settings\<close> shows
  the "unset" status for \<^verbatim>\<open>None\<close> whatever the flag is, the "expiring" status for a non-empty
  text with a true flag and the "valid" status for a non-empty text with a false flag; and
  whenever there is such a text it calls \<^verbatim>\<open>cookie_input.setText\<close> on it, so that the box
  afterwards reports what the toolkit makes of that text, whatever it held before.
\<close>

theorem load_settings_status:
  assumes "db_get_valid_cookie C (db_handler s) = (Inr (cookie, need_update), d')"
  shows "(cookie = None \<longrightarrow> fst (cookie_status_label (load_settings C s)) = StatusUnset)
       \<and> (\<forall>text. cookie = Some text \<and> text \<noteq> [] \<and> need_update \<longrightarrow>
             fst (cookie_status_label (load_settings C s)) = StatusExpiring
             \<and> InputSetText text \<in> set (events_since s (load_settings C s))
             \<and> cookie_input (load_settings C s) = plain_after_setText C text)
       \<and> (\<forall>text. cookie = Some text \<and> text \<noteq> [] \<and> \<not> need_update \<longrightarrow>
             fst (cookie_status_label (load_settings C s)) = StatusValid
             \<and> InputSetText text \<in> set (events_since s (load_settings C s))
             \<and> cookie_input (load_settings C s) = plain_after_setText C text)"
  using assms
  by (simp add: load_settings_def call_defs ui_defs events_since_def Let_def)

theorem load_settings_status_witness:
  "InputSetText old_cookie
     \<in> set (events_since (user_types ''unsaved edit'' page0)
              (load_settings ref_collab (user_types ''unsaved edit'' page0)))
   \<and> cookie_input (load_settings ref_collab (user_types ''unsaved edit'' page0)) = old_cookie
   \<and> fst (cookie_status_label (load_settings ref_collab (user_types ''unsaved edit'' page0)))
       = StatusValid
   \<and> fst (cookie_status_label
        (load_settings ref_collab (page0\<lparr>db_handler := db0\<lparr>near_expiry := True\<rparr>\<rparr>)))
       = StatusExpiring
   \<and> fst (cookie_status_label
        (load_settings ref_collab (page0\<lparr>db_handler := db0\<lparr>stored_cookie := None\<rparr>\<rparr>)))
       = StatusUnset"
  using load_settings_status
      [of ref_collab "user_types ''unsaved edit'' page0" "Some old_cookie" False db0]
    load_settings_status
      [of ref_collab "page0\<lparr>db_handler := db0\<lparr>near_expiry := True\<rparr>\<rparr>" "Some old_cookie" True
        "db0\<lparr>near_expiry := True\<rparr>"]
    load_settings_status
      [of ref_collab "page0\<lparr>db_handler := db0\<lparr>stored_cookie := None\<rparr>\<rparr>" None False
        "db0\<lparr>stored_cookie := None\<rparr>"]
  by (simp add: ref_simps)

subsection \<open>The helper's callback when Config rejects the cookie\<close>

text \<open>
  C10. In \<^verbatim>\<open>on_cookie_received\<close>, when \<^verbatim>\<open>config.set_cookie\<close> returns false for the received
  cookie, the handler has written the cookie into the input box and called
  \<^verbatim>\<open>set_cookie\<close>, and nothing else: no method of the database handler is called (so no
  \<^verbatim>\<open>save_cookie\<close>), the status label is not set, no dialog of any level is shown, and the
  box keeps the rejected cookie: \<^verbatim>\<open>setText\<close> on it is the only write to the box, and the box
  reports what the toolkit makes of it.
\<close>

theorem on_cookie_received_rejected:
  assumes "config_set_cookie C cookie (config s) = (Inr False, c')"
  shows "events_since s (on_cookie_received C cookie s)
           = [InputSetText cookie, ConfigSetCookie cookie]
       \<and> filter is_db_call (events_since s (on_cookie_received C cookie s)) = []
       \<and> filter is_status_set (events_since s (on_cookie_received C cookie s)) = []
       \<and> filter is_message (events_since s (on_cookie_received C cookie s)) = []
       \<and> db_handler (on_cookie_received C cookie s) = db_handler s
       \<and> cookie_status_label (on_cookie_received C cookie s) = cookie_status_label s
       \<and> cookie_input (on_cookie_received C cookie s) = plain_after_setText C cookie"
  using assms
  by (simp add: on_cookie_received_def call_defs ui_defs events_since_def)

theorem on_cookie_received_rejected_witness:
  "events_since page0 (on_cookie_received ref_collab bad_cookie page0)
     = [InputSetText bad_cookie, ConfigSetCookie bad_cookie]
   \<and> cookie_input (on_cookie_received ref_collab bad_cookie page0) = bad_cookie
   \<and> cookie_status_label (on_cookie_received ref_collab bad_cookie page0)
       = (StatusValid, ''#00cc00'')
   \<and> db_handler (on_cookie_received ref_collab bad_cookie page0) = db0"
  using on_cookie_received_rejected [of ref_collab bad_cookie page0 config0]
  by (simp add: ref_simps)

subsection \<open>Clearing the database\<close>

text \<open>
  C8. \<^verbatim>\<open>clear_database\<close> with a reply other than Yes calls no method of the database handler
  and leaves it as it was; with the reply Yes it calls \<^verbatim>\<open>db_handler.clear_database()\<close>
  exactly once, and that is its only call to the database handler.
\<close>

theorem clear_database_confirmed:
  "(reply \<noteq> Yes \<longrightarrow>
      db_handler (clear_database C reply s) = db_handler s
      \<and> filter is_db_call (events_since s (clear_database C reply s)) = [])
   \<and> (reply = Yes \<longrightarrow>
      filter is_db_call (events_since s (clear_database C reply s)) = [DbClearDatabase]
      \<and> count_list (events_since s (clear_database C reply s)) DbClearDatabase = 1
      \<and> db_handler (clear_database C reply s) = snd (db_clear_database C (db_handler s)))"
  by (simp add: clear_database_def handler_simps split: sum.splits)

theorem clear_database_confirmed_witness:
  "db_handler (clear_database ref_collab No page0) = db0
   \<and> filter is_db_call (events_since page0 (clear_database ref_collab No page0)) = []
   \<and> comments (db_handler (clear_database ref_collab Yes page0)) = []
   \<and> count_list (events_since page0 (clear_database ref_collab Yes page0)) DbClearDatabase = 1"
  using clear_database_confirmed [of No ref_collab page0]
    clear_database_confirmed [of Yes ref_collab page0]
  by (simp add: ref_simps)

subsection \<open>Validating the cookie\<close>

text \<open>
  C6. \<^verbatim>\<open>validate_cookie\<close> reads the text of the input box, stripped. When that text is empty
  the only effect is the warning asking for a cookie, so Config is not consulted. Otherwise
  its only call to Config is one \<^verbatim>\<open>config.validate_cookie\<close> on the text, and Config's answer
  decides the dialog: the success notice for true, the warning that the format is wrong or
  a required field is missing for false. In every case no method of the database handler is
  called and the database handler is left as it was.
\<close>

theorem validate_cookie_effects:
  "(strip (cookie_input s) = [] \<longrightarrow>
      events_since s (validate_cookie C s) = [MessageBox Warning TitleHint PleaseEnterCookie]
      \<and> config (validate_cookie C s) = config s)
   \<and> (strip (cookie_input s) \<noteq> [] \<longrightarrow>
      filter is_config_call (events_since s (validate_cookie C s))
        = [ConfigValidateCookie (strip (cookie_input s))]
      \<and> config (validate_cookie C s)
        = snd (config_validate_cookie C (strip (cookie_input s)) (config s))
      \<and> (fst (config_validate_cookie C (strip (cookie_input s)) (config s)) = Inr True \<longrightarrow>
           filter is_message (events_since s (validate_cookie C s))
             = [MessageBox Information TitleSuccess CookieFormatOk])
      \<and> (fst (config_validate_cookie C (strip (cookie_input s)) (config s)) = Inr False \<longrightarrow>
           filter is_message (events_since s (validate_cookie C s))
             = [MessageBox Warning TitleError CookieFormatInvalid]))
   \<and> filter is_db_call (events_since s (validate_cookie C s)) = []
   \<and> db_handler (validate_cookie C s) = db_handler s"
  by (simp add: validate_cookie_def handler_simps split: sum.splits)

theorem validate_cookie_effects_witness:
  "events_since (user_types ''  '' page0) (validate_cookie ref_collab (user_types ''  '' page0))
     = [MessageBox Warning TitleHint PleaseEnterCookie]
   \<and> filter is_message
        (events_since (user_types bad_cookie page0)
           (validate_cookie ref_collab (user_types bad_cookie page0)))
       = [MessageBox Warning TitleError CookieFormatInvalid]
   \<and> filter is_message
        (events_since (user_types new_cookie page0)
           (validate_cookie ref_collab (user_types new_cookie page0)))
       = [MessageBox Information TitleSuccess CookieFormatOk]
   \<and> db_handler (validate_cookie ref_collab (user_types bad_cookie page0)) = db0"
  using validate_cookie_effects [of "user_types ''  '' page0" ref_collab]
    validate_cookie_effects [of "user_types bad_cookie page0" ref_collab]
    validate_cookie_effects [of "user_types new_cookie page0" ref_collab]
  by (simp add: ref_simps)

subsection \<open>The crawler parameters\<close>

text \<open>
  C9. When the value of any one of the three spin boxes changes, the connected slot
  \<^verbatim>\<open>save_settings\<close> assigns all three attributes of Config, in the order DELAY_MIN,
  DELAY_MAX, MAX_RETRIES, each from the value its spin box holds then; afterwards the three
  attributes equal the three spin boxes. No handler assigns one attribute alone.
\<close>

theorem spin_edit_writes_all_three:
  assumes "bound sp v \<noteq> spin_value sp s"
  shows "events_since s (spin_edit sp v s)
           = [ConfigSetAttr DELAY_MIN_attr (min_delay (spin_edit sp v s)),
              ConfigSetAttr DELAY_MAX_attr (max_delay (spin_edit sp v s)),
              ConfigSetAttr MAX_RETRIES_attr (max_retries (spin_edit sp v s))]
       \<and> spin_value sp (spin_edit sp v s) = bound sp v
       \<and> DELAY_MIN (config (spin_edit sp v s)) = min_delay (spin_edit sp v s)
       \<and> DELAY_MAX (config (spin_edit sp v s)) = max_delay (spin_edit sp v s)
       \<and> MAX_RETRIES (config (spin_edit sp v s)) = max_retries (spin_edit sp v s)"
  using assms
  by (cases sp)
    (simp_all add: spin_edit_def save_settings_def config_setattr_def ui_defs
      events_since_def Let_def)

theorem spin_edit_writes_all_three_witness:
  "DELAY_MIN (config (spin_edit MaxRetriesSpin 3
       (spin_edit MaxDelaySpin 10 (spin_edit MinDelaySpin 5 page0)))) = 5
   \<and> DELAY_MAX (config (spin_edit MaxRetriesSpin 3
       (spin_edit MaxDelaySpin 10 (spin_edit MinDelaySpin 5 page0)))) = 10
   \<and> MAX_RETRIES (config (spin_edit MaxRetriesSpin 3
       (spin_edit MaxDelaySpin 10 (spin_edit MinDelaySpin 5 page0)))) = 3
   \<and> events_since page0
       (spin_edit MaxRetriesSpin 3 (spin_edit MaxDelaySpin 10 (spin_edit MinDelaySpin 5 page0)))
      = [ConfigSetAttr DELAY_MIN_attr 5, ConfigSetAttr DELAY_MAX_attr 3,
         ConfigSetAttr MAX_RETRIES_attr 5,
         ConfigSetAttr DELAY_MIN_attr 5, ConfigSetAttr DELAY_MAX_attr 10,
         ConfigSetAttr MAX_RETRIES_attr 5,
         ConfigSetAttr DELAY_MIN_attr 5, ConfigSetAttr DELAY_MAX_attr 10,
         ConfigSetAttr MAX_RETRIES_attr 3]"
  using spin_edit_writes_all_three [of MinDelaySpin 5 page0]
    spin_edit_writes_all_three [of MaxDelaySpin 10 "spin_edit MinDelaySpin 5 page0"]
    spin_edit_writes_all_three
      [of MaxRetriesSpin 3 "spin_edit MaxDelaySpin 10 (spin_edit MinDelaySpin 5 page0)"]
  by (simp add: ref_simps bound_def spin_edit_def save_settings_def config_setattr_def ui_defs
      events_since_def Let_def)

subsection \<open>Clearing the cookie\<close>



subsection \<open>Saving the cookie\<close>



text \<open>
  C1 (as the code has it). In \<^verbatim>\<open>save_cookie\<close> with a non-empty text (the stripped content
  of the input box), the first effect is \<^verbatim>\<open>config.clear_cookie()\<close> and, when that returns
  normally, the second is \<^verbatim>\<open>config.set_cookie(text)\<close>. If \<^verbatim>\<open>set_cookie\<close> returns false the
  user is warned and that is all: no method of the database handler is called, so the
  database handler is left as it was and keeps any cookie it stored, and Config is left as
  \<^verbatim>\<open>clear_cookie\<close> followed by the rejected \<^verbatim>\<open>set_cookie\<close> left it.
\<close>

theorem save_cookie_rejected:
  assumes "strip (cookie_input s) = cookie" and "cookie \<noteq> []"
    and "config_clear_cookie C (config s) = (Inr (), c1)"
  shows "take 2 (events_since s (save_cookie C s)) = [ConfigClearCookie, ConfigSetCookie cookie]
       \<and> (\<forall>c2. config_set_cookie C cookie c1 = (Inr False, c2) \<longrightarrow>
            events_since s (save_cookie C s)
              = [ConfigClearCookie, ConfigSetCookie cookie,
                 MessageBox Warning TitleError CookieFormatInvalid]
            \<and> db_handler (save_cookie C s) = db_handler s
            \<and> config (save_cookie C s) = c2)"
  using assms
  by (simp add: save_cookie_def handler_simps split: sum.splits)

theorem save_cookie_rejected_witness:
  "events_since (user_types bad_cookie page0) (save_cookie ref_collab (user_types bad_cookie page0))
     = [ConfigClearCookie, ConfigSetCookie bad_cookie,
        MessageBox Warning TitleError CookieFormatInvalid]
   \<and> db_handler (save_cookie ref_collab (user_types bad_cookie page0)) = db0
   \<and> internals (config (save_cookie ref_collab (user_types bad_cookie page0))) = None"
  using save_cookie_rejected [of "user_types bad_cookie page0" bad_cookie ref_collab
      "config0\<lparr>internals := None\<rparr>"]
  by (simp add: ref_simps)

text \<open>
  C1 as claimed says that after a rejected save no stored credential remains at all. On the
  reference collaborators, with a cookie stored in the database and a text missing the
  bili_jct field typed into the box, \<^verbatim>\<open>set_cookie\<close> rejects the text and the database still
  returns the earlier cookie as its valid cookie.
\<close>

theorem save_cookie_rejected_counterexample:
  "strip (cookie_input (user_types bad_cookie page0)) \<noteq> []
   \<and> fst (config_set_cookie ref_collab (strip (cookie_input (user_types bad_cookie page0)))
        (snd (config_clear_cookie ref_collab (config (user_types bad_cookie page0)))))
       = Inr False
   \<and> fst (db_get_valid_cookie ref_collab
        (db_handler (save_cookie ref_collab (user_types bad_cookie page0))))
       = Inr (Some old_cookie, False)"
  by (simp add: ref_simps save_cookie_def handler_simps)

subsection \<open>Validation failures\<close>

text \<open>
  C2 (as the code has it). A validation failure in \<^verbatim>\<open>validate_cookie\<close> or \<^verbatim>\<open>save_cookie\<close>
  ends in a warning and never calls the database handler. With an empty text both handlers
  do nothing but show the warning, so Config and the database handler are untouched. With a
  text that Config rejects, \<^verbatim>\<open>validate_cookie\<close> has only asked \<^verbatim>\<open>config.validate_cookie\<close>,
  whereas \<^verbatim>\<open>save_cookie\<close> has already called \<^verbatim>\<open>config.clear_cookie()\<close> and
  \<^verbatim>\<open>config.set_cookie(text)\<close> when it warns.
\<close>

theorem validation_failure_effects:
  "(strip (cookie_input s) = [] \<longrightarrow>
      validate_cookie C s = message_box Warning TitleHint PleaseEnterCookie s
      \<and> save_cookie C s = message_box Warning TitleHint PleaseEnterCookie s
      \<and> config (message_box Warning TitleHint PleaseEnterCookie s) = config s
      \<and> db_handler (message_box Warning TitleHint PleaseEnterCookie s) = db_handler s)
   \<and> (strip (cookie_input s) \<noteq> []
        \<and> fst (config_validate_cookie C (strip (cookie_input s)) (config s)) = Inr False \<longrightarrow>
      events_since s (validate_cookie C s)
        = [ConfigValidateCookie (strip (cookie_input s)),
           MessageBox Warning TitleError CookieFormatInvalid]
      \<and> db_handler (validate_cookie C s) = db_handler s)
   \<and> (strip (cookie_input s) \<noteq> []
        \<and> fst (config_clear_cookie C (config s)) = Inr ()
        \<and> fst (config_set_cookie C (strip (cookie_input s))
                 (snd (config_clear_cookie C (config s)))) = Inr False \<longrightarrow>
      events_since s (save_cookie C s)
        = [ConfigClearCookie, ConfigSetCookie (strip (cookie_input s)),
           MessageBox Warning TitleError CookieFormatInvalid]
      \<and> db_handler (save_cookie C s) = db_handler s)"
  by (simp add: save_cookie_def validate_cookie_def handler_simps split: sum.splits)

theorem validation_failure_effects_witness:
  "validate_cookie ref_collab (user_types ''  '' page0)
     = message_box Warning TitleHint PleaseEnterCookie (user_types ''  '' page0)
   \<and> save_cookie ref_collab (user_types ''  '' page0)
     = message_box Warning TitleHint PleaseEnterCookie (user_types ''  '' page0)
   \<and> events_since (user_types bad_cookie page0)
        (validate_cookie ref_collab (user_types bad_cookie page0))
     = [ConfigValidateCookie bad_cookie, MessageBox Warning TitleError CookieFormatInvalid]
   \<and> events_since (user_types bad_cookie page0)
        (save_cookie ref_collab (user_types bad_cookie page0))
     = [ConfigClearCookie, ConfigSetCookie bad_cookie,
        MessageBox Warning TitleError CookieFormatInvalid]
   \<and> db_handler (save_cookie ref_collab (user_types bad_cookie page0)) = db0"
  using validation_failure_effects [of "user_types ''  '' page0" ref_collab]
    validation_failure_effects [of "user_types bad_cookie page0" ref_collab]
  by (simp add: ref_simps)

text \<open>
  C2 as claimed says that a validation failure aborts the action before any state of Config
  has been changed. On the reference collaborators, saving a text missing the bili_jct field
  ends in the warning, and the active cookie that Config held before is gone.
\<close>

theorem validation_failure_counterexample:
  "\<not> ref_valid (strip (cookie_input (user_types bad_cookie page0)))
   \<and> last (log (save_cookie ref_collab (user_types bad_cookie page0)))
       = MessageBox Warning TitleError CookieFormatInvalid
   \<and> internals (config (user_types bad_cookie page0)) = Some old_cookie
   \<and> internals (config (save_cookie ref_collab (user_types bad_cookie page0))) = None"
  by (simp add: ref_simps save_cookie_def handler_simps)

subsection \<open>The helper's callback in general\<close>



end
